theory Spec2Isabelle
  imports Complex_Main
begin

section \<open>Nonlinear solvers: Newton-Raphson, bisection and their combinator\<close>

text \<open>
  A shallow embedding of \<^verbatim>\<open>nonlinear_solvers/solvers.py\<close>.

  Numbers are modelled as \<^typ>\<open>real\<close>: the arithmetic of the solvers is exact here, where
  Python rounds to a double. The objective function and its derivative are total functions
  \<^typ>\<open>real \<Rightarrow> real\<close>; the one arithmetic step of the source that can raise, the division
  in \<^verbatim>\<open>g\<close>, is modelled with its error. The iteration caps are Python integers, hence
  \<^typ>\<open>int\<close>, negative values included.
\<close>

subsection \<open>Exceptions\<close>

text \<open>
  \<^verbatim>\<open>ConvergenceError\<close> carries the cap that its message quotes
  (\<^verbatim>\<open>max_its of {max_its} has been exceeded\<close>); \<^verbatim>\<open>ValueError\<close> is the invalid-bracket
  error of bisection; \<^verbatim>\<open>ZeroDivisionError\<close> is what Python's \<^verbatim>\<open>/\<close> raises on a zero
  divisor.
\<close>

datatype error = ConvergenceError int | ValueError | ZeroDivisionError

subsection \<open>Default arguments\<close>

text \<open>
  The three solvers share the defaults \<^verbatim>\<open>eps=1.0e-5\<close> and \<^verbatim>\<open>max_its=20\<close> (in
  \<^verbatim>\<open>solve\<close>: \<^verbatim>\<open>max_its_n=20\<close>, \<^verbatim>\<open>max_its_b=20\<close>).
\<close>

definition eps_default :: real where
  "eps_default = 1 / 100000"

definition max_its_default :: int where
  "max_its_default = 20"

subsection \<open>Newton-Raphson\<close>

text \<open>
  \<^verbatim>\<open>def g(x): return x - f(x) / df(x)\<close>
\<close>

definition g :: "(real \<Rightarrow> real) \<Rightarrow> (real \<Rightarrow> real) \<Rightarrow> real \<Rightarrow> error + real" where
  "g f df x = (if df x = 0 then Inl ZeroDivisionError else Inr (x - f x / df x))"

text \<open>
  The \<^verbatim>\<open>while\<close> loop of \<^verbatim>\<open>newton_raphson\<close>, on the state \<open>(r, x_r, x_r_plus_1)\<close>. It
  returns the state at which the loop test fails, or the error raised by \<^verbatim>\<open>g\<close> in the body.
\<close>

function newton_loop ::
  "(real \<Rightarrow> real) \<Rightarrow> (real \<Rightarrow> real) \<Rightarrow> real \<Rightarrow> int \<Rightarrow> int \<Rightarrow> real \<Rightarrow> real
     \<Rightarrow> error + (int \<times> real \<times> real)" where
  "newton_loop f df eps max_its r x_r x_r_plus_1 =
     (if \<bar>x_r_plus_1 - x_r\<bar> > eps \<and> r < max_its
      then (case g f df x_r_plus_1 of
              Inl e \<Rightarrow> Inl e
            | Inr x' \<Rightarrow> newton_loop f df eps max_its (r + 1) x_r_plus_1 x')
      else Inr (r, x_r, x_r_plus_1))"
  by pat_completeness auto
termination
  by (relation "measure (\<lambda>(f, df, eps, max_its, r, x_r, x_r_plus_1). nat (max_its - r))") auto

declare newton_loop.simps [simp del]

text \<open>
  The state of \<^verbatim>\<open>newton_raphson\<close> when its loop has exited: \<open>r = -1\<close>, \<open>x_r = x_0\<close>, one
  unconditional evaluation of \<^verbatim>\<open>g\<close>, then the loop.
\<close>

definition newton_exit ::
  "(real \<Rightarrow> real) \<Rightarrow> (real \<Rightarrow> real) \<Rightarrow> real \<Rightarrow> real \<Rightarrow> int \<Rightarrow> error + (int \<times> real \<times> real)" where
  "newton_exit f df x_0 eps max_its =
     (case g f df x_0 of
        Inl e \<Rightarrow> Inl e
      | Inr x_1 \<Rightarrow> newton_loop f df eps max_its (- 1) x_0 x_1)"

definition newton_raphson ::
  "(real \<Rightarrow> real) \<Rightarrow> (real \<Rightarrow> real) \<Rightarrow> real \<Rightarrow> real \<Rightarrow> int \<Rightarrow> error + real" where
  "newton_raphson f df x_0 eps max_its =
     (case newton_exit f df x_0 eps max_its of
        Inl e \<Rightarrow> Inl e
      | Inr (r, x_r, x_r_plus_1) \<Rightarrow>
          if r = max_its then Inl (ConvergenceError max_its) else Inr x_r_plus_1)"

subsection \<open>Bisection\<close>

text \<open>
  The \<^verbatim>\<open>while\<close> loop of \<^verbatim>\<open>bisection\<close>, on the state \<open>(a, b, c, its)\<close>. The loop test
  \<^verbatim>\<open>abs(f(c)) > eps\<close> does not involve the cap, so the loop may run forever: not returning
  is the value \<open>None\<close>. A run that ends gives the error raised in the body, or the pair
  \<open>(c, its)\<close> with which the loop was left, by its test or by \<^verbatim>\<open>break\<close>.
\<close>

partial_function (option) bisection_loop ::
  "(real \<Rightarrow> real) \<Rightarrow> real \<Rightarrow> real \<Rightarrow> real \<Rightarrow> real \<Rightarrow> nat \<Rightarrow> (error + (real \<times> nat)) option" where
  "bisection_loop f eps a b c its =
     (if \<bar>f c\<bar> > eps
      then (if f a * f b \<ge> 0 then Some (Inl ValueError)
            else (if f ((a + b) / 2) = 0 then Some (Inr ((a + b) / 2, its))
                  else (if f a * f ((a + b) / 2) < 0
                        then bisection_loop f eps a ((a + b) / 2) ((a + (a + b) / 2) / 2) (its + 1)
                        else bisection_loop f eps ((a + b) / 2) b (((a + b) / 2 + b) / 2) (its + 1))))
      else Some (Inr (c, its)))"

declare bisection_loop.simps [code]

definition bisection ::
  "(real \<Rightarrow> real) \<Rightarrow> real \<Rightarrow> real \<Rightarrow> real \<Rightarrow> int \<Rightarrow> (error + real) option" where
  "bisection f a b eps max_its =
     (case bisection_loop f eps a b ((a + b) / 2) 0 of
        None \<Rightarrow> None
      | Some (Inl e) \<Rightarrow> Some (Inl e)
      | Some (Inr (c, its)) \<Rightarrow>
          if int its \<ge> max_its then Some (Inl (ConvergenceError max_its)) else Some (Inr c))"

subsection \<open>The combinator\<close>

text \<open>
  \<^verbatim>\<open>solve\<close> returns a float, or falls off its end and returns Python's \<^verbatim>\<open>None\<close>: the
  returned value is a \<^typ>\<open>real option\<close>. The outer \<open>option\<close> is the termination of the
  bisection fallback. The lines printed are returned with the outcome.
\<close>

definition solve ::
  "(real \<Rightarrow> real) \<Rightarrow> (real \<Rightarrow> real) \<Rightarrow> real \<Rightarrow> real \<Rightarrow> real \<Rightarrow> int \<Rightarrow> int
     \<Rightarrow> (string list \<times> (error + real option)) option" where
  "solve f df x_0 x_1 eps max_its_n max_its_b =
     (case newton_raphson f df x_0 eps max_its_n of
        Inr root_n \<Rightarrow>
          Some ([''Trying Newton's Method'', ''Newton worked''], Inr (Some root_n))
      | Inl (ConvergenceError n) \<Rightarrow>
          (case bisection f x_0 x_1 eps max_its_b of
             None \<Rightarrow> None
           | Some (Inr root_b) \<Rightarrow>
               Some ([''Trying Newton's Method'', ''Newton did not work'',
                      ''Trying Bisection method'', ''Bisection worked''], Inr (Some root_b))
           | Some (Inl ValueError) \<Rightarrow>
               Some ([''Trying Newton's Method'', ''Newton did not work'',
                      ''Trying Bisection method'', ''Bisection did not work''], Inr None)
           | Some (Inl e) \<Rightarrow>
               Some ([''Trying Newton's Method'', ''Newton did not work'',
                      ''Trying Bisection method''], Inl e))
      | Inl e \<Rightarrow> Some ([''Trying Newton's Method''], Inl e))"

subsection \<open>The iterates in the words of the specification\<close>

text \<open>
  The specification describes Newton-Raphson by the sequence \<open>x\<^sub>0, x\<^sub>1 = g x\<^sub>0, x\<^sub>2 = g x\<^sub>1, \<dots>\<close>
  of the update \<open>x \<leftarrow> x - f(x)/df(x)\<close>. \<open>spec_iterate f df x_0 k\<close> is its \<open>k\<close>-th member, an
  error from the first division by zero on. It is not part of the source: the loop of the
  source is compared with it.
\<close>

fun spec_iterate :: "(real \<Rightarrow> real) \<Rightarrow> (real \<Rightarrow> real) \<Rightarrow> real \<Rightarrow> nat \<Rightarrow> error + real" where
  "spec_iterate f df x_0 0 = Inr x_0"
| "spec_iterate f df x_0 (Suc k) =
     (case spec_iterate f df x_0 k of Inl e \<Rightarrow> Inl e | Inr x \<Rightarrow> g f df x)"

section \<open>Properties of the Newton-Raphson loop\<close>

text \<open>One unfolding of the loop, by the three ways its body can go.\<close>

lemma newton_loop_exit:
  "\<not> (\<bar>x' - x\<bar> > eps \<and> r < max_its) \<Longrightarrow>
   newton_loop f df eps max_its r x x' = Inr (r, x, x')"
  by (subst newton_loop.simps) auto

lemma newton_loop_step:
  "\<bar>x' - x\<bar> > eps \<Longrightarrow> r < max_its \<Longrightarrow> g f df x' = Inr x'' \<Longrightarrow>
   newton_loop f df eps max_its r x x' = newton_loop f df eps max_its (r + 1) x' x''"
  by (subst newton_loop.simps) simp

lemma newton_loop_raise:
  "\<bar>x' - x\<bar> > eps \<Longrightarrow> r < max_its \<Longrightarrow> g f df x' = Inl e \<Longrightarrow>
   newton_loop f df eps max_its r x x' = Inl e"
  by (subst newton_loop.simps) simp

text \<open>
  Started at the \<open>k\<close>-th iterate with index \<open>k - 1\<close>, the loop runs along the iterates up to
  the first \<open>n\<close> at which its test fails.
\<close>

lemma newton_loop_run:
  assumes its: "\<forall>k\<le>Suc n. spec_iterate f df x_0 k = Inr (xs k)"
    and go: "\<forall>k<n. \<bar>xs (Suc k) - xs k\<bar> > eps \<and> int k - 1 < max_its"
    and stop: "\<not> (\<bar>xs (Suc n) - xs n\<bar> > eps \<and> int n - 1 < max_its)"
    and kn: "k \<le> n"
  shows "newton_loop f df eps max_its (int k - 1) (xs k) (xs (Suc k))
           = Inr (int n - 1, xs n, xs (Suc n))"
  using kn
proof (induction k rule: inc_induct)
  case base
  from stop show ?case by (rule newton_loop_exit)
next
  case (step k)
  from step.hyps(2) go have c: "\<bar>xs (Suc k) - xs k\<bar> > eps" "int k - 1 < max_its" by auto
  from step.hyps(2) have "Suc (Suc k) \<le> Suc n" "Suc k \<le> Suc n" by auto
  with its have "spec_iterate f df x_0 (Suc (Suc k)) = Inr (xs (Suc (Suc k)))"
    "spec_iterate f df x_0 (Suc k) = Inr (xs (Suc k))" by blast+
  then have gk: "g f df (xs (Suc k)) = Inr (xs (Suc (Suc k)))" by simp
  have "newton_loop f df eps max_its (int k - 1) (xs k) (xs (Suc k))
          = newton_loop f df eps max_its (int k - 1 + 1) (xs (Suc k)) (xs (Suc (Suc k)))"
    using c gk by (rule newton_loop_step)
  also have "int k - 1 + 1 = int (Suc k) - 1" by simp
  finally show ?case using step.IH by simp
qed

text \<open>
  The index never passes a cap it starts below, and the loop is left only where its test
  fails.
\<close>

lemma newton_loop_inv:
  "newton_loop f df eps max_its r x x' = Inr (r', y, y') \<Longrightarrow> r \<le> max_its \<Longrightarrow>
   r' \<le> max_its \<and> \<not> (\<bar>y' - y\<bar> > eps \<and> r' < max_its)"
proof (induction f df eps max_its r x x' rule: newton_loop.induct)
  case (1 f df eps max_its r x_r x_r_plus_1)
  show ?case
  proof (cases "\<bar>x_r_plus_1 - x_r\<bar> > eps \<and> r < max_its")
    case False
    with "1.prems" show ?thesis by (simp add: newton_loop_exit)
  next
    case True
    show ?thesis
    proof (cases "g f df x_r_plus_1")
      case (Inl e)
      with True "1.prems" show ?thesis by (simp add: newton_loop_raise)
    next
      case (Inr x'')
      with True "1.prems"
      have "newton_loop f df eps max_its (r + 1) x_r_plus_1 x'' = Inr (r', y, y')"
        by (simp add: newton_loop_step)
      moreover from True have "r + 1 \<le> max_its" by simp
      ultimately show ?thesis using "1.IH" True Inr by blast
    qed
  qed
qed

section \<open>Properties of the bisection loop\<close>

lemma bisection_loop_not_entered:
  "\<not> \<bar>f c\<bar> > eps \<Longrightarrow> bisection_loop f eps a b c its = Some (Inr (c, its))"
  by (subst bisection_loop.simps) simp

lemma bisection_loop_invalid_bracket:
  "\<bar>f c\<bar> > eps \<Longrightarrow> f a * f b \<ge> 0 \<Longrightarrow>
   bisection_loop f eps a b c its = Some (Inl ValueError)"
  by (subst bisection_loop.simps) simp

lemma bisection_loop_break:
  "\<bar>f c\<bar> > eps \<Longrightarrow> f a * f b < 0 \<Longrightarrow> f ((a + b) / 2) = 0 \<Longrightarrow>
   bisection_loop f eps a b c its = Some (Inr ((a + b) / 2, its))"
  by (subst bisection_loop.simps) simp

text \<open>
  The cap is compared with a counter that is never negative, after the loop and on every
  way out of it: with a cap of zero or less, bisection returns no value.
\<close>

lemma bisection_cap_nonpositive:
  "max_its \<le> 0 \<Longrightarrow> bisection f a b eps max_its \<noteq> Some (Inr x)"
  by (auto simp: bisection_def split: option.splits sum.splits)

section \<open>The claims\<close>

subsection \<open>Newton-Raphson\<close>

text \<open>
  Claim C2. \<^verbatim>\<open>newton_raphson\<close> iterates \<open>x \<leftarrow> x - f(x)/df(x)\<close> with the index \<open>r\<close> starting
  at \<open>-1\<close> and one unconditional update before the loop test, loops while
  \<open>\<bar>x\<^sub>r\<^sub>+\<^sub>1 - x\<^sub>r\<bar> > eps\<close> and \<open>r < max_its\<close>, and, when the loop exits, raises
  \<^verbatim>\<open>ConvergenceError\<close> carrying the cap exactly when \<open>r = max_its\<close>, otherwise returns
  \<open>x\<^sub>r\<^sub>+\<^sub>1\<close>. Stated on the iterates \<open>xs\<close>: if the test holds at every \<open>k < n\<close> (where the
  index is \<open>k - 1\<close>) and fails at \<open>n\<close>, the loop is left with index \<open>n - 1\<close> and the pair
  \<open>(xs n, xs (n + 1))\<close>, and the outcome is decided by comparing that index with the cap.
\<close>

theorem newton_raphson_iterates:
  assumes its: "\<forall>k\<le>Suc n. spec_iterate f df x_0 k = Inr (xs k)"
    and go: "\<forall>k<n. \<bar>xs (Suc k) - xs k\<bar> > eps \<and> int k - 1 < max_its"
    and stop: "\<not> (\<bar>xs (Suc n) - xs n\<bar> > eps \<and> int n - 1 < max_its)"
  shows "newton_exit f df x_0 eps max_its = Inr (int n - 1, xs n, xs (Suc n)) \<and>
         newton_raphson f df x_0 eps max_its =
           (if int n - 1 = max_its then Inl (ConvergenceError max_its) else Inr (xs (Suc n)))"
proof -
  from its have "spec_iterate f df x_0 0 = Inr (xs 0)"
    "spec_iterate f df x_0 (Suc 0) = Inr (xs (Suc 0))"
    by auto
  then have x0: "xs 0 = x_0" and g0: "g f df x_0 = Inr (xs (Suc 0))" by auto
  have "newton_loop f df eps max_its (int 0 - 1) (xs 0) (xs (Suc 0))
          = Inr (int n - 1, xs n, xs (Suc n))"
    using its go stop by (rule newton_loop_run) simp
  then have ex: "newton_exit f df x_0 eps max_its = Inr (int n - 1, xs n, xs (Suc n))"
    by (simp add: newton_exit_def g0 x0)
  then show ?thesis by (simp add: newton_raphson_def)
qed

text \<open>
  For \<open>f x = x - 5\<close> with derivative \<open>1\<close>, started at \<open>0\<close>, the iterates are \<open>0, 5, 5\<close>: the
  test holds at \<open>0\<close> and fails at \<open>1\<close>.
\<close>

theorem newton_raphson_iterates_witness:
  "newton_exit (\<lambda>x. x - 5) (\<lambda>x. 1) 0 (1 / 100000) 20 = Inr (0, 5, 5) \<and>
   newton_raphson (\<lambda>x. x - 5) (\<lambda>x. 1) 0 (1 / 100000) 20 = Inr 5"
proof -
  let ?f = "\<lambda>x::real. x - 5" and ?df = "\<lambda>x::real. 1::real"
  let ?xs = "\<lambda>k::nat. if k = 0 then 0 else 5::real"
  have s0: "spec_iterate ?f ?df 0 0 = Inr 0" by simp
  have s1: "spec_iterate ?f ?df 0 (Suc 0) = Inr 5" by (simp add: g_def)
  have s2: "spec_iterate ?f ?df 0 (Suc (Suc 0)) = Inr 5" by (simp add: g_def)
  have its: "\<forall>k\<le>Suc 1. spec_iterate ?f ?df 0 k = Inr (?xs k)"
  proof (intro allI impI)
    fix k :: nat assume "k \<le> Suc 1"
    then consider "k = 0" | "k = Suc 0" | "k = Suc (Suc 0)" by linarith
    then show "spec_iterate ?f ?df 0 k = Inr (?xs k)"
      using s0 s1 s2 by cases simp_all
  qed
  have go: "\<forall>k<1. \<bar>?xs (Suc k) - ?xs k\<bar> > 1 / 100000 \<and> int k - 1 < 20" by simp
  have stop: "\<not> (\<bar>?xs (Suc 1) - ?xs 1\<bar> > 1 / 100000 \<and> int 1 - 1 < 20)" by simp
  from newton_raphson_iterates [OF its go stop] show ?thesis by simp
qed

text \<open>
  Claim C5. For every \<open>f\<close>, \<open>df\<close>, \<open>x_0\<close>, \<open>eps\<close> with \<open>\<bar>g x_0 - x_0\<bar> > eps\<close>,
  \<^verbatim>\<open>newton_raphson\<close> called with \<^verbatim>\<open>max_its = 0\<close> raises \<^verbatim>\<open>ConvergenceError\<close>. This needs the
  second update, the one made in the single pass through the loop body, to be defined:
  \<open>df (g x_0) \<noteq> 0\<close>. With it the claim holds, and the error carries the cap \<open>0\<close>.
\<close>

theorem newton_raphson_cap_zero:
  assumes "g f df x_0 = Inr x_1" and "\<bar>x_1 - x_0\<bar> > eps" and "df x_1 \<noteq> 0"
  shows "newton_raphson f df x_0 eps 0 = Inl (ConvergenceError 0)"
proof -
  from assms(3) obtain x_2 where g1: "g f df x_1 = Inr x_2" by (simp add: g_def)
  have "newton_loop f df eps 0 (- 1) x_0 x_1 = newton_loop f df eps 0 (- 1 + 1) x_1 x_2"
    using assms(2) _ g1 by (rule newton_loop_step) simp
  also have "\<dots> = Inr (0, x_1, x_2)" by (simp add: newton_loop_exit)
  finally show ?thesis using assms(1) by (simp add: newton_raphson_def newton_exit_def)
qed

theorem newton_raphson_cap_zero_witness:
  "newton_raphson (\<lambda>x. x - 5) (\<lambda>x. 1) 0 eps_default 0 = Inl (ConvergenceError 0)"
proof -
  have "g (\<lambda>x. x - 5) (\<lambda>x. 1) 0 = Inr 5" by (simp add: g_def)
  moreover have "\<bar>(5::real) - 0\<bar> > eps_default" by (simp add: eps_default_def)
  moreover have "(\<lambda>x::real. 1::real) 5 \<noteq> 0" by simp
  ultimately show ?thesis by (rule newton_raphson_cap_zero)
qed

text \<open>
  Without that condition the claim fails: for \<open>f x = x\<^sup>2 + 1\<close>, \<open>df x = 2 x\<close> and \<open>x_0 = 1\<close>
  the first update gives \<open>0\<close>, a step of \<open>1 > eps\<close>, and the update in the loop body divides by
  \<open>df 0 = 0\<close>: the call raises \<^verbatim>\<open>ZeroDivisionError\<close>, not \<^verbatim>\<open>ConvergenceError\<close>.
\<close>

theorem newton_raphson_cap_zero_counterexample:
  "g (\<lambda>x. x * x + 1) (\<lambda>x. 2 * x) 1 = Inr 0 \<and> \<bar>0 - 1\<bar> > eps_default \<and>
   newton_raphson (\<lambda>x. x * x + 1) (\<lambda>x. 2 * x) 1 eps_default 0 = Inl ZeroDivisionError"
  by (simp add: g_def eps_default_def newton_raphson_def newton_exit_def newton_loop.simps)

text \<open>
  Claim C7. For the linear function \<open>f x = x - r\<close> with derivative \<open>1\<close>, started at \<open>0\<close> with
  the default cap, \<^verbatim>\<open>newton_raphson\<close> returns a value within \<open>eps\<close> of \<open>r\<close>, in exactly one
  iteration. For every \<open>eps \<ge> 0\<close>, the default included, the returned value is \<open>r\<close> itself.
  The loop is left with index \<open>0\<close>, after one pass through its body, when \<open>\<bar>r\<bar> > eps\<close>, and
  with index \<open>-1\<close>, its body never run, when \<open>\<bar>r\<bar> \<le> eps\<close>.
\<close>

theorem newton_raphson_linear:
  "0 \<le> eps \<Longrightarrow>
   newton_exit (\<lambda>x. x - r) (\<lambda>x. 1) 0 eps max_its_default =
     Inr (if \<bar>r\<bar> > eps then (0, r, r) else (- 1, 0, r)) \<and>
   (\<exists>x. newton_raphson (\<lambda>x. x - r) (\<lambda>x. 1) 0 eps max_its_default = Inr x \<and> \<bar>x - r\<bar> \<le> eps)"
  by (simp add: g_def max_its_default_def newton_raphson_def newton_exit_def newton_loop.simps)

theorem newton_raphson_linear_witness:
  "newton_exit (\<lambda>x. x - 5) (\<lambda>x. 1) 0 eps_default max_its_default = Inr (0, 5, 5) \<and>
   (\<exists>x. newton_raphson (\<lambda>x. x - 5) (\<lambda>x. 1) 0 eps_default max_its_default = Inr x \<and>
        \<bar>x - 5\<bar> \<le> eps_default)"
proof -
  have "0 \<le> eps_default" by (simp add: eps_default_def)
  from newton_raphson_linear [OF this, of 5] show ?thesis by (simp add: eps_default_def)
qed

text \<open>
  The number of iterations is not the same for every \<open>r\<close>: at \<open>r = 0\<close> the loop is left with
  index \<open>-1\<close> (one update, no pass through the loop body), at \<open>r = 5\<close> with index \<open>0\<close> (two
  updates, one pass through the loop body).
\<close>

theorem newton_raphson_linear_counterexample:
  "newton_exit (\<lambda>x. x - 0) (\<lambda>x. 1) 0 eps_default max_its_default = Inr (- 1, 0, 0) \<and>
   newton_exit (\<lambda>x. x - 5) (\<lambda>x. 1) 0 eps_default max_its_default = Inr (0, 5, 5)"
  by (simp add: g_def eps_default_def max_its_default_def newton_exit_def newton_loop.simps)

text \<open>
  Claim C10. Whenever \<^verbatim>\<open>newton_raphson\<close> returns a value, the returned \<open>x\<^sub>r\<^sub>+\<^sub>1\<close> satisfies
  \<open>\<bar>x\<^sub>r\<^sub>+\<^sub>1 - x\<^sub>r\<bar> \<le> eps\<close> for the previous iterate \<open>x\<^sub>r\<close>; it need not satisfy
  \<open>\<bar>f x\<bar> < eps\<close>. The step-size guarantee holds for every cap \<open>max_its \<ge> -1\<close>. The second
  part is shown by \<open>f x = 1\<close> with \<open>df x = 1000000\<close>: the call returns after a step of
  \<open>1/1000000\<close> at a point where \<open>f\<close> is \<open>1\<close>.
\<close>

theorem newton_raphson_step_size:
  "(- 1 \<le> max_its \<and> newton_raphson f df x_0 eps max_its = Inr x \<longrightarrow>
     (\<exists>r x_r. newton_exit f df x_0 eps max_its = Inr (r, x_r, x) \<and> \<bar>x - x_r\<bar> \<le> eps)) \<and>
   (newton_raphson (\<lambda>x. 1) (\<lambda>x. 1000000) 0 eps_default max_its_default
      = Inr (- (1 / 1000000)) \<and>
    \<not> \<bar>(\<lambda>x::real. 1::real) (- (1 / 1000000))\<bar> < eps_default)"
proof (intro conjI impI)
  assume h: "- 1 \<le> max_its \<and> newton_raphson f df x_0 eps max_its = Inr x"
  then obtain r x_r where ex: "newton_exit f df x_0 eps max_its = Inr (r, x_r, x)"
    and ne: "r \<noteq> max_its"
    by (auto simp: newton_raphson_def split: sum.splits if_splits)
  then obtain x_1 where "newton_loop f df eps max_its (- 1) x_0 x_1 = Inr (r, x_r, x)"
    by (auto simp: newton_exit_def split: sum.splits)
  with h have "r \<le> max_its \<and> \<not> (\<bar>x - x_r\<bar> > eps \<and> r < max_its)"
    by (intro newton_loop_inv) auto
  with ne have "\<bar>x - x_r\<bar> \<le> eps" by auto
  with ex show "\<exists>r x_r. newton_exit f df x_0 eps max_its = Inr (r, x_r, x) \<and> \<bar>x - x_r\<bar> \<le> eps"
    by blast
next
  show "newton_raphson (\<lambda>x. 1) (\<lambda>x. 1000000) 0 eps_default max_its_default
          = Inr (- (1 / 1000000))"
    by (simp add: g_def eps_default_def max_its_default_def newton_raphson_def
        newton_exit_def newton_loop.simps)
next
  show "\<not> \<bar>(\<lambda>x::real. 1::real) (- (1 / 1000000))\<bar> < eps_default"
    by (simp add: eps_default_def)
qed

theorem newton_raphson_step_size_witness:
  "newton_raphson (\<lambda>x. x - 5) (\<lambda>x. 1) 0 eps_default 20 = Inr 5 \<and>
   (\<exists>r x_r. newton_exit (\<lambda>x. x - 5) (\<lambda>x. 1) 0 eps_default 20 = Inr (r, x_r, 5) \<and>
           \<bar>5 - x_r\<bar> \<le> eps_default)"
proof -
  have run: "newton_raphson (\<lambda>x. x - 5) (\<lambda>x. 1) 0 eps_default 20 = Inr 5"
    by (simp add: g_def eps_default_def newton_raphson_def newton_exit_def newton_loop.simps)
  with newton_raphson_step_size [of 20 "\<lambda>x. x - 5" "\<lambda>x. 1" 0 eps_default 5]
  show ?thesis by simp
qed

text \<open>
  Below \<open>-1\<close> the guarantee is lost: with \<^verbatim>\<open>max_its = -2\<close> the loop test fails at once on
  \<open>r < max_its\<close>, the index \<open>-1\<close> differs from the cap, and the first update is returned
  whatever its step; here a step of \<open>5\<close>.
\<close>

theorem newton_raphson_step_size_counterexample:
  "newton_exit (\<lambda>x. x - 5) (\<lambda>x. 1) 0 eps_default (- 2) = Inr (- 1, 0, 5) \<and>
   newton_raphson (\<lambda>x. x - 5) (\<lambda>x. 1) 0 eps_default (- 2) = Inr 5 \<and>
   \<not> \<bar>5 - 0\<bar> \<le> eps_default"
  by (simp add: g_def eps_default_def newton_raphson_def newton_exit_def newton_loop.simps)

subsection \<open>Bisection\<close>

text \<open>
  Claim C9. For every \<open>f\<close>, \<open>a\<close>, \<open>b\<close> with \<open>f a * f b \<ge> 0\<close>, an invalid bracket: whenever
  the initial midpoint \<open>c = (a + b) / 2\<close> already satisfies \<open>\<bar>f c\<bar> \<le> eps\<close> and
  \<open>max_its > 0\<close>, \<^verbatim>\<open>bisection\<close> returns \<open>c\<close> and does not raise the invalid-bracket error:
  the bracket check is in a loop body that is never entered.
\<close>

theorem bisection_invalid_bracket_unchecked:
  "f a * f b \<ge> 0 \<Longrightarrow> \<bar>f ((a + b) / 2)\<bar> \<le> eps \<Longrightarrow> 0 < max_its \<Longrightarrow>
   bisection_loop f eps a b ((a + b) / 2) 0 = Some (Inr ((a + b) / 2, 0)) \<and>
   bisection f a b eps max_its = Some (Inr ((a + b) / 2))"
  by (simp add: bisection_def bisection_loop_not_entered)

theorem bisection_invalid_bracket_unchecked_witness:
  "bisection (\<lambda>x. x * x) (- 1) 1 eps_default max_its_default = Some (Inr 0)"
  using bisection_invalid_bracket_unchecked
    [of "\<lambda>x. x * x" "- 1" 1 eps_default max_its_default]
  by (simp add: eps_default_def max_its_default_def)

text \<open>
  Claim C6. For every \<open>f\<close>, \<open>a\<close>, \<open>b\<close> with \<open>f a * f b \<ge> 0\<close>, \<^verbatim>\<open>bisection\<close> raises the
  invalid-bracket error on the first evaluation of the loop body; the precondition is
  validated inside the loop, not up front. The error is raised provided the loop body is
  evaluated at all, that is when \<open>\<bar>f ((a + b) / 2)\<bar> > eps\<close>: then it is raised by the first
  statement of the first pass, whatever the cap.
\<close>

theorem bisection_invalid_bracket:
  "f a * f b \<ge> 0 \<Longrightarrow> \<bar>f ((a + b) / 2)\<bar> > eps \<Longrightarrow>
   bisection_loop f eps a b ((a + b) / 2) 0 = Some (Inl ValueError) \<and>
   bisection f a b eps max_its = Some (Inl ValueError)"
  by (simp add: bisection_def bisection_loop_invalid_bracket)

theorem bisection_invalid_bracket_witness:
  "bisection (\<lambda>x. x * x + 1) (- 1) 1 eps_default max_its_default = Some (Inl ValueError)"
  using bisection_invalid_bracket [of "\<lambda>x. x * x + 1" "- 1" 1 eps_default max_its_default]
  by (simp add: eps_default_def)

text \<open>
  Where the loop body is not evaluated the error is not raised: \<open>f x = x\<^sup>2\<close> has the same
  sign at \<open>-1\<close> and \<open>1\<close> and vanishes at the midpoint \<open>0\<close>, which is returned.
\<close>

theorem bisection_invalid_bracket_counterexample:
  "(\<lambda>x::real. x * x) (- 1) * (\<lambda>x::real. x * x) 1 \<ge> 0 \<and>
   bisection (\<lambda>x. x * x) (- 1) 1 eps_default max_its_default = Some (Inr 0)"
  by (simp add: bisection_def bisection_loop.simps eps_default_def max_its_default_def)

text \<open>
  Claim C3. With \<^verbatim>\<open>max_its = 0\<close>: if \<open>f\<close> is exactly \<open>0\<close> at the first midpoint computed
  inside the loop body, \<^verbatim>\<open>bisection\<close> exits early, does not increment its iteration
  counter, does not re-check the cap on that path, and returns that midpoint. The early
  exit and the counter are as claimed: the loop is left by \<^verbatim>\<open>break\<close> with the midpoint and
  the counter still \<open>0\<close>. The cap is checked all the same, by the statement that follows the
  loop: the midpoint is returned for \<open>max_its > 0\<close>, and \<^verbatim>\<open>ConvergenceError\<close> is raised for
  \<open>max_its \<le> 0\<close>. (For a pure \<open>f\<close> the loop is entered with \<open>f\<close> zero at the midpoint only
  when \<open>eps < 0\<close>.)
\<close>

theorem bisection_exact_zero_break:
  "\<bar>f ((a + b) / 2)\<bar> > eps \<Longrightarrow> f a * f b < 0 \<Longrightarrow> f ((a + b) / 2) = 0 \<Longrightarrow>
   bisection_loop f eps a b ((a + b) / 2) 0 = Some (Inr ((a + b) / 2, 0)) \<and>
   bisection f a b eps max_its =
     Some (if max_its \<le> 0 then Inl (ConvergenceError max_its) else Inr ((a + b) / 2))"
  by (simp add: bisection_def bisection_loop_break)

theorem bisection_exact_zero_break_witness:
  "bisection_loop (\<lambda>x. x) (- 1) (- 1) 1 ((- 1 + 1) / 2) 0 = Some (Inr (0, 0)) \<and>
   bisection (\<lambda>x. x) (- 1) 1 (- 1) max_its_default = Some (Inr 0)"
  using bisection_exact_zero_break [of "- 1" "\<lambda>x. x" "- 1" 1 max_its_default]
  by (simp add: max_its_default_def)

text \<open>
  With \<^verbatim>\<open>max_its = 0\<close> the call does not return the midpoint: for \<open>f x = x\<close> on \<open>[-1, 1]\<close>
  with \<open>eps = -1\<close> the loop is entered, the bracket is valid, \<open>f\<close> is \<open>0\<close> at the midpoint, and
  the call raises \<^verbatim>\<open>ConvergenceError\<close>.
\<close>

theorem bisection_exact_zero_break_counterexample:
  "\<bar>(\<lambda>x::real. x) ((- 1 + 1) / 2)\<bar> > - 1 \<and> (\<lambda>x::real. x) (- 1) * (\<lambda>x::real. x) 1 < 0 \<and>
   (\<lambda>x::real. x) ((- 1 + 1) / 2) = 0 \<and>
   bisection (\<lambda>x. x) (- 1) 1 (- 1) 0 = Some (Inl (ConvergenceError 0))"
  by (simp add: bisection_def bisection_loop.simps)

text \<open>
  Claim C8. For \<open>f x = x\<^sup>2 - 2\<close> with the default \<open>eps\<close> and cap, \<^verbatim>\<open>bisection(f, 0, 2)\<close>
  returns, and the returned value is within \<open>eps\<close> of \<open>\<surd>2\<close>. The loop is left after \<open>15\<close>
  passes, below the cap of \<open>20\<close>, at \<open>c = 46341 / 32768\<close>. Every value the run computes is a
  dyadic rational of at most \<open>32\<close> bits, which a double holds exactly.
\<close>

theorem bisection_sqrt_2:
  "bisection_loop (\<lambda>x. x * x - 2) eps_default 0 2 ((0 + 2) / 2) 0
     = Some (Inr (46341 / 32768, 15)) \<and>
   bisection (\<lambda>x. x * x - 2) 0 2 eps_default max_its_default = Some (Inr (46341 / 32768)) \<and>
   \<bar>46341 / 32768 - sqrt 2\<bar> \<le> eps_default"
proof (intro conjI)
  show "bisection_loop (\<lambda>x. x * x - 2) eps_default 0 2 ((0 + 2) / 2) 0
          = Some (Inr (46341 / 32768, 15))"
    by (simp add: bisection_loop.simps eps_default_def)
  then show "bisection (\<lambda>x. x * x - 2) 0 2 eps_default max_its_default
          = Some (Inr (46341 / 32768))"
    by (simp add: bisection_def max_its_default_def)
  have "(46341 / 32768 - 1 / 100000 :: real) \<le> sqrt 2"
    by (rule real_le_rsqrt) (simp add: power2_eq_square)
  moreover have "sqrt 2 \<le> (46341 / 32768 + 1 / 100000 :: real)"
    by (rule real_le_lsqrt) (simp_all add: power2_eq_square)
  ultimately show "\<bar>46341 / 32768 - sqrt 2\<bar> \<le> eps_default"
    unfolding eps_default_def by linarith
qed

subsection \<open>The combinator\<close>

text \<open>
  The path on which \<^verbatim>\<open>solve\<close> returns no value: Newton-Raphson raises
  \<^verbatim>\<open>ConvergenceError\<close>, and the bisection fallback enters its loop on a bracket without a
  sign change.
\<close>

lemma solve_invalid_bracket:
  assumes "newton_raphson f df x_0 eps max_its_n = Inl (ConvergenceError k)"
    and "f x_0 * f x_1 \<ge> 0" and "\<bar>f ((x_0 + x_1) / 2)\<bar> > eps"
  shows "solve f df x_0 x_1 eps max_its_n max_its_b =
           Some ([''Trying Newton's Method'', ''Newton did not work'',
                  ''Trying Bisection method'', ''Bisection did not work''], Inr None)"
  using assms by (simp add: solve_def bisection_def bisection_loop_invalid_bracket)

text \<open>
  Claim C1. \<^verbatim>\<open>solve\<close> catches exactly two kinds of failure: a \<^verbatim>\<open>ConvergenceError\<close> from
  \<^verbatim>\<open>newton_raphson\<close>, which starts the bisection fallback on \<open>[x_0, x_1]\<close>, and the
  invalid-bracket \<^verbatim>\<open>ValueError\<close> from \<^verbatim>\<open>bisection\<close>, after which no value is returned.
  Every other failure, a \<^verbatim>\<open>ConvergenceError\<close> raised by \<^verbatim>\<open>bisection\<close> included, is passed
  on to the caller of \<^verbatim>\<open>solve\<close>. The theorem gives the outcome of \<^verbatim>\<open>solve\<close> for each outcome
  of the two solvers; a fallback that does not return leaves \<^verbatim>\<open>solve\<close> without a result.
\<close>

theorem solve_catches:
  "(newton_raphson f df x_0 eps max_its_n = Inr root_n \<longrightarrow>
      solve f df x_0 x_1 eps max_its_n max_its_b =
        Some ([''Trying Newton's Method'', ''Newton worked''], Inr (Some root_n))) \<and>
   (newton_raphson f df x_0 eps max_its_n = Inl e \<and> (\<forall>k. e \<noteq> ConvergenceError k) \<longrightarrow>
      solve f df x_0 x_1 eps max_its_n max_its_b = Some ([''Trying Newton's Method''], Inl e)) \<and>
   (newton_raphson f df x_0 eps max_its_n = Inl (ConvergenceError k) \<longrightarrow>
      (bisection f x_0 x_1 eps max_its_b = None \<longrightarrow>
         solve f df x_0 x_1 eps max_its_n max_its_b = None) \<and>
      (bisection f x_0 x_1 eps max_its_b = Some (Inr root_b) \<longrightarrow>
         solve f df x_0 x_1 eps max_its_n max_its_b =
           Some ([''Trying Newton's Method'', ''Newton did not work'',
                  ''Trying Bisection method'', ''Bisection worked''], Inr (Some root_b))) \<and>
      (bisection f x_0 x_1 eps max_its_b = Some (Inl ValueError) \<longrightarrow>
         solve f df x_0 x_1 eps max_its_n max_its_b =
           Some ([''Trying Newton's Method'', ''Newton did not work'',
                  ''Trying Bisection method'', ''Bisection did not work''], Inr None)) \<and>
      (bisection f x_0 x_1 eps max_its_b = Some (Inl e') \<and> e' \<noteq> ValueError \<longrightarrow>
         solve f df x_0 x_1 eps max_its_n max_its_b =
           Some ([''Trying Newton's Method'', ''Newton did not work'',
                  ''Trying Bisection method''], Inl e')))"
proof (intro conjI impI)
  assume "newton_raphson f df x_0 eps max_its_n = Inl e \<and> (\<forall>k. e \<noteq> ConvergenceError k)"
  then show "solve f df x_0 x_1 eps max_its_n max_its_b
               = Some ([''Trying Newton's Method''], Inl e)"
    by (cases e) (simp_all add: solve_def)
next
  assume "newton_raphson f df x_0 eps max_its_n = Inl (ConvergenceError k)"
    and "bisection f x_0 x_1 eps max_its_b = Some (Inl e') \<and> e' \<noteq> ValueError"
  then show "solve f df x_0 x_1 eps max_its_n max_its_b =
           Some ([''Trying Newton's Method'', ''Newton did not work'',
                  ''Trying Bisection method''], Inl e')"
    by (cases e') (simp_all add: solve_def)
qed (simp_all add: solve_def)

text \<open>
  Three runs with \<^verbatim>\<open>max_its_n = 0\<close>. For \<open>f x = x\<^sup>2 - 2\<close> and \<open>df x = 1\<close> from \<open>0\<close>,
  Newton-Raphson raises \<^verbatim>\<open>ConvergenceError\<close>; bisection on \<open>[0, 2]\<close> with a cap of \<open>10\<close>
  needs \<open>15\<close> passes and raises \<^verbatim>\<open>ConvergenceError\<close> in turn, which \<^verbatim>\<open>solve\<close> passes on. For
  \<open>f x = x\<^sup>2 + 1\<close> on \<open>[-1, 1]\<close> bisection raises \<^verbatim>\<open>ValueError\<close>, which is caught. For
  \<open>df x = 0\<close> the division by zero in Newton-Raphson is passed on.
\<close>

theorem solve_catches_witness:
  "solve (\<lambda>x. x * x - 2) (\<lambda>x. 1) 0 2 eps_default 0 10 =
     Some ([''Trying Newton's Method'', ''Newton did not work'',
            ''Trying Bisection method''], Inl (ConvergenceError 10)) \<and>
   solve (\<lambda>x. x * x + 1) (\<lambda>x. 1) (- 1) 1 eps_default 0 max_its_default =
     Some ([''Trying Newton's Method'', ''Newton did not work'',
            ''Trying Bisection method'', ''Bisection did not work''], Inr None) \<and>
   solve (\<lambda>x. 1) (\<lambda>x. 0) 0 1 eps_default 0 max_its_default =
     Some ([''Trying Newton's Method''], Inl ZeroDivisionError)"
proof (intro conjI)
  have n1: "newton_raphson (\<lambda>x. x * x - 2) (\<lambda>x. 1) 0 eps_default 0 = Inl (ConvergenceError 0)"
    by (simp add: g_def eps_default_def newton_raphson_def newton_exit_def newton_loop.simps)
  have "bisection_loop (\<lambda>x. x * x - 2) eps_default 0 2 ((0 + 2) / 2) 0
          = Some (Inr (46341 / 32768, 15))"
    by (simp add: bisection_loop.simps eps_default_def)
  then have b1: "bisection (\<lambda>x. x * x - 2) 0 2 eps_default 10 = Some (Inl (ConvergenceError 10))"
    by (simp add: bisection_def)
  from n1 b1 solve_catches
    [of "\<lambda>x. x * x - 2" "\<lambda>x. 1" 0 eps_default 0 _ 2 10 _ 0 _ "ConvergenceError 10"]
  show "solve (\<lambda>x. x * x - 2) (\<lambda>x. 1) 0 2 eps_default 0 10 =
     Some ([''Trying Newton's Method'', ''Newton did not work'',
            ''Trying Bisection method''], Inl (ConvergenceError 10))"
    by simp
next
  have n2: "newton_raphson (\<lambda>x. x * x + 1) (\<lambda>x. 1) (- 1) eps_default 0
              = Inl (ConvergenceError 0)"
    by (simp add: g_def eps_default_def newton_raphson_def newton_exit_def newton_loop.simps)
  have b2: "bisection (\<lambda>x. x * x + 1) (- 1) 1 eps_default max_its_default
              = Some (Inl ValueError)"
    by (simp add: bisection_def bisection_loop.simps eps_default_def)
  from n2 b2 solve_catches
    [of "\<lambda>x. x * x + 1" "\<lambda>x. 1" "- 1" eps_default 0 _ 1 max_its_default _ 0]
  show "solve (\<lambda>x. x * x + 1) (\<lambda>x. 1) (- 1) 1 eps_default 0 max_its_default =
     Some ([''Trying Newton's Method'', ''Newton did not work'',
            ''Trying Bisection method'', ''Bisection did not work''], Inr None)"
    by simp
next
  have n3: "newton_raphson (\<lambda>x. 1) (\<lambda>x. 0) 0 eps_default 0 = Inl ZeroDivisionError"
    by (simp add: g_def newton_raphson_def newton_exit_def)
  from n3 solve_catches
    [of "\<lambda>x. 1" "\<lambda>x. 0" 0 eps_default 0 _ 1 max_its_default ZeroDivisionError]
  show "solve (\<lambda>x. 1) (\<lambda>x. 0) 0 1 eps_default 0 max_its_default =
     Some ([''Trying Newton's Method''], Inl ZeroDivisionError)"
    by simp
qed

text \<open>
  Claim C4. For every \<open>f\<close> with \<open>df\<close> identically zero, every \<open>x_0\<close>, \<open>x_1\<close> with \<open>f x_0\<close> and
  \<open>f x_1\<close> of the same sign, and \<^verbatim>\<open>max_its_n = 0\<close>: \<^verbatim>\<open>solve\<close> yields no return value. On
  these inputs the failure of Newton-Raphson is the division by zero in its first update,
  which \<^verbatim>\<open>solve\<close> does not catch: bisection is not attempted, and the
  \<^verbatim>\<open>ZeroDivisionError\<close> reaches the caller.
\<close>

theorem solve_zero_derivative:
  "(\<forall>x. df x = 0) \<Longrightarrow> f x_0 * f x_1 \<ge> 0 \<Longrightarrow>
   solve f df x_0 x_1 eps 0 max_its_b = Some ([''Trying Newton's Method''], Inl ZeroDivisionError)"
  by (simp add: solve_def newton_raphson_def newton_exit_def g_def)

theorem solve_zero_derivative_witness:
  "solve (\<lambda>x. x * x + 1) (\<lambda>x. 0) (- 1) 1 eps_default 0 max_its_default =
     Some ([''Trying Newton's Method''], Inl ZeroDivisionError)"
  using solve_zero_derivative [of "\<lambda>x. 0" "\<lambda>x. x * x + 1" "- 1" 1 eps_default max_its_default]
  by simp

theorem solve_zero_derivative_counterexample:
  "(\<lambda>x::real. 0::real) 0 = 0 \<and> (\<lambda>x::real. 1::real) 0 * (\<lambda>x::real. 1::real) 1 \<ge> 0 \<and>
   solve (\<lambda>x. 1) (\<lambda>x. 0) 0 1 eps_default 0 max_its_default =
     Some ([''Trying Newton's Method''], Inl ZeroDivisionError) \<and>
   solve (\<lambda>x. 1) (\<lambda>x. 0) 0 1 eps_default 0 max_its_default \<noteq>
     Some ([''Trying Newton's Method'', ''Newton did not work'',
            ''Trying Bisection method'', ''Bisection did not work''], Inr None)"
  by (simp add: solve_def newton_raphson_def newton_exit_def g_def)

end
